theory Spec2Isabelle
  imports Complex_Main "HOL-Library.Multiset"
begin

section \<open>Data model of \<open>tools/market_tools.py\<close>\<close>

text \<open>
  Python \<open>float\<close> values are modelled as real numbers: comparisons against the
  thresholds are exact in both worlds, and arithmetic is taken without rounding, so a
  statement "equal within floating rounding" reads as equality of reals. The values
  \<open>nan\<close> and \<open>inf\<close> are outside the snapshot record; the quality scoring, whose
  clamping is the one place where they matter, is modelled a second time on floats
  that include them (section "Quality scoring on floats with nan and inf"). Python
  \<open>int\<close> is \<open>int\<close>, \<open>str\<close> is \<open>string\<close>, a \<open>dict\<close> is a map.
\<close>

datatype ModelCategory = LLM | IMAGE_GEN | EMBEDDING | AUDIO | MULTIMODAL

type_synonym datetime = int

record PerformanceMetrics =
  avg_latency_ms :: real
  p95_latency_ms :: real
  p99_latency_ms :: real
  tokens_per_second :: real
  requests_per_minute :: real
  accuracy_score :: real
  benchmark_score :: real
  uptime_percentage :: real
  error_rate :: real
  cost_per_1k_tokens :: real
  measurement_timestamp :: "datetime option"
  sample_size :: int

text \<open>The dataclass defaults: \<open>PerformanceMetrics()\<close>.\<close>

definition PerformanceMetrics_default :: PerformanceMetrics where
  "PerformanceMetrics_default =
     \<lparr>avg_latency_ms = 0, p95_latency_ms = 0, p99_latency_ms = 0,
      tokens_per_second = 0, requests_per_minute = 0,
      accuracy_score = 0, benchmark_score = 0,
      uptime_percentage = 0, error_rate = 0,
      cost_per_1k_tokens = 0,
      measurement_timestamp = None, sample_size = 0\<rparr>"

record QScoreResult =
  model_id :: string
  q_score :: real
  category :: ModelCategory
  metrics :: PerformanceMetrics
  latency_score :: real
  throughput_score :: real
  quality_score :: real
  reliability_score :: real
  recommendations :: "string list"
  mint_eligible :: bool

text \<open>The tool instance: its only state is the metrics cache.\<close>

record QScoreAnalyzerTool =
  metrics_cache :: "string \<rightharpoonup> PerformanceMetrics"

section \<open>Class constants of \<open>QScoreAnalyzerTool\<close>\<close>

definition MIN_SCORE_FOR_MINT :: real where "MIN_SCORE_FOR_MINT = 50"
definition EXCELLENT_THRESHOLD :: real where "EXCELLENT_THRESHOLD = 80"
definition GOOD_THRESHOLD :: real where "GOOD_THRESHOLD = 60"

definition LATENCY_WEIGHT :: real where "LATENCY_WEIGHT = 0.25"
definition THROUGHPUT_WEIGHT :: real where "THROUGHPUT_WEIGHT = 0.25"
definition QUALITY_WEIGHT :: real where "QUALITY_WEIGHT = 0.25"
definition RELIABILITY_WEIGHT :: real where "RELIABILITY_WEIGHT = 0.25"

section \<open>Score calculation helpers\<close>

text \<open>
  Python's two-argument \<open>max(a, b)\<close> returns \<open>b\<close> only when \<open>b > a\<close>, and
  \<open>min(a, b)\<close> returns \<open>b\<close> only when \<open>b < a\<close>.
\<close>

definition py_max :: "real \<Rightarrow> real \<Rightarrow> real" where
  "py_max a b = (if b > a then b else a)"

definition py_min :: "real \<Rightarrow> real \<Rightarrow> real" where
  "py_min a b = (if b < a then b else a)"

definition calculate_latency_score :: "PerformanceMetrics \<Rightarrow> real" where
  "calculate_latency_score m =
     (let latency = avg_latency_ms m in
      if latency \<le> 0 then 0.0
      else if latency < 50 then 1.0
      else if latency < 100 then 0.8
      else if latency < 200 then 0.6
      else if latency < 500 then 0.4
      else if latency < 1000 then 0.2
      else 0.0)"

definition calculate_throughput_score :: "PerformanceMetrics \<Rightarrow> real" where
  "calculate_throughput_score m =
     (let tps = tokens_per_second m in
      if tps \<ge> 1000 then 1.0
      else if tps \<ge> 500 then 0.8
      else if tps \<ge> 200 then 0.6
      else if tps \<ge> 100 then 0.4
      else if tps \<ge> 50 then 0.2
      else 0.0)"

definition calculate_quality_score :: "PerformanceMetrics \<Rightarrow> real" where
  "calculate_quality_score m =
     (let accuracy = py_min (py_max (accuracy_score m) 0.0) 1.0;
          benchmark = py_min (py_max (benchmark_score m / 100.0) 0.0) 1.0
      in accuracy * 0.6 + benchmark * 0.4)"

definition calculate_reliability_score :: "PerformanceMetrics \<Rightarrow> real" where
  "calculate_reliability_score m =
     (let uptime = uptime_percentage m;
          uptime_score =
            (if uptime \<ge> 99.9 then 1.0
             else if uptime \<ge> 99 then 0.9
             else if uptime \<ge> 95 then 0.5
             else if uptime \<ge> 90 then 0.2
             else 0.0);
          error_rate = error_rate m;
          error_score =
            (if error_rate \<le> 0 then 1.0
             else if error_rate \<le> 0.01 then 0.9
             else if error_rate \<le> 0.05 then 0.5
             else if error_rate < 0.10 then 0.2
             else 0.0)
      in uptime_score * 0.5 + error_score * 0.5)"

text \<open>
  \<open>_generate_recommendations\<close> appends to a list that starts empty; each \<open>if\<close>
  of the source is one step on that list.
\<close>

definition generate_recommendations ::
  "real \<Rightarrow> real \<Rightarrow> real \<Rightarrow> real \<Rightarrow> real \<Rightarrow> string list" where
  "generate_recommendations q latency throughput quality reliability =
     (let recs0 = [];
          recs1 = (if latency < 0.5
                   then recs0 @ [''Consider optimizing inference latency'']
                   else recs0);
          recs2 = (if throughput < 0.5
                   then recs1 @ [''Throughput could be improved with batching'']
                   else recs1);
          recs3 = (if quality < 0.5
                   then recs2 @ [''Model accuracy needs improvement'']
                   else recs2);
          recs4 = (if reliability < 0.5
                   then recs3 @ [''Improve uptime and reduce error rates'']
                   else recs3)
      in if q \<ge> EXCELLENT_THRESHOLD
         then recs4 @ [''Excellent performance - eligible for premium rates'']
         else if q \<ge> MIN_SCORE_FOR_MINT
         then recs4 @ [''Good performance - eligible for token minting'']
         else recs4 @ [''Below threshold - improvements needed before minting''])"

text \<open>
  \<open>_fetch_metrics\<close>: the cached snapshot if the identifier is a key of the cache,
  the default snapshot otherwise (the oracle is not implemented).
\<close>

definition fetch_metrics :: "QScoreAnalyzerTool \<Rightarrow> string \<Rightarrow> PerformanceMetrics" where
  "fetch_metrics self mid =
     (case metrics_cache self mid of
        Some m \<Rightarrow> m
      | None \<Rightarrow> PerformanceMetrics_default)"

section \<open>Q-score calculation\<close>

definition calculate_q_score ::
  "QScoreAnalyzerTool \<Rightarrow> string \<Rightarrow> PerformanceMetrics option \<Rightarrow> ModelCategory
     \<Rightarrow> QScoreResult" where
  "calculate_q_score self mid metrics_arg cat =
     (let m = (case metrics_arg of
                 None \<Rightarrow> fetch_metrics self mid
               | Some m' \<Rightarrow> m');
          latency = calculate_latency_score m;
          throughput = calculate_throughput_score m;
          quality = calculate_quality_score m;
          reliability = calculate_reliability_score m;
          q = (latency * LATENCY_WEIGHT +
               throughput * THROUGHPUT_WEIGHT +
               quality * QUALITY_WEIGHT +
               reliability * RELIABILITY_WEIGHT) * 100;
          eligible = (q \<ge> MIN_SCORE_FOR_MINT);
          recs = generate_recommendations q latency throughput quality reliability
      in \<lparr>model_id = mid,
          q_score = q,
          category = cat,
          metrics = m,
          latency_score = latency * 25,
          throughput_score = throughput * 25,
          quality_score = quality * 25,
          reliability_score = reliability * 25,
          recommendations = recs,
          mint_eligible = eligible\<rparr>)"

section \<open>Quality scoring on floats with nan and inf\<close>

text \<open>
  A Python \<open>float\<close> with its special values: a finite number, plus or minus infinity,
  or \<open>nan\<close>. Arithmetic on finite values is exact (no rounding, no overflow, no
  signed zero).
\<close>

datatype pyfloat = Fin real | PInf | NInf | NaN

text \<open>The comparison \<open>a < b\<close>: false whenever an operand is \<open>nan\<close>.\<close>

fun float_lt :: "pyfloat \<Rightarrow> pyfloat \<Rightarrow> bool" where
  "float_lt NaN b = False"
| "float_lt a NaN = False"
| "float_lt (Fin a) (Fin b) = (a < b)"
| "float_lt (Fin a) PInf = True"
| "float_lt (Fin a) NInf = False"
| "float_lt PInf b = False"
| "float_lt NInf NInf = False"
| "float_lt NInf b = True"

text \<open>Addition: \<open>nan\<close> propagates, and \<open>inf + (-inf)\<close> is \<open>nan\<close>.\<close>

fun float_add :: "pyfloat \<Rightarrow> pyfloat \<Rightarrow> pyfloat" where
  "float_add NaN b = NaN"
| "float_add a NaN = NaN"
| "float_add (Fin a) (Fin b) = Fin (a + b)"
| "float_add (Fin a) b = b"
| "float_add a (Fin b) = a"
| "float_add PInf PInf = PInf"
| "float_add NInf NInf = NInf"
| "float_add PInf NInf = NaN"
| "float_add NInf PInf = NaN"

fun float_neg :: "pyfloat \<Rightarrow> pyfloat" where
  "float_neg (Fin a) = Fin (- a)"
| "float_neg PInf = NInf"
| "float_neg NInf = PInf"
| "float_neg NaN = NaN"

text \<open>Multiplication: \<open>nan\<close> propagates, and \<open>inf * 0\<close> is \<open>nan\<close>.\<close>

fun float_mul :: "pyfloat \<Rightarrow> pyfloat \<Rightarrow> pyfloat" where
  "float_mul NaN b = NaN"
| "float_mul a NaN = NaN"
| "float_mul (Fin a) (Fin b) = Fin (a * b)"
| "float_mul (Fin a) b = (if a = 0 then NaN else if 0 < a then b else float_neg b)"
| "float_mul a (Fin b) = (if b = 0 then NaN else if 0 < b then a else float_neg a)"
| "float_mul PInf b = b"
| "float_mul NInf b = float_neg b"

text \<open>
  Division by a positive finite constant (the source divides by the literal 100.0
  only): the special values are unchanged.
\<close>

fun float_div_pos :: "pyfloat \<Rightarrow> real \<Rightarrow> pyfloat" where
  "float_div_pos (Fin a) c = Fin (a / c)"
| "float_div_pos PInf c = PInf"
| "float_div_pos NInf c = NInf"
| "float_div_pos NaN c = NaN"

text \<open>
  Python's \<open>max(a, b)\<close> and \<open>min(a, b)\<close> as above: \<open>b\<close> replaces \<open>a\<close> only when
  the comparison \<open>b > a\<close> (or \<open>b < a\<close>) is true, so a \<open>nan\<close> in first place stays.
\<close>

definition py_max_float :: "pyfloat \<Rightarrow> pyfloat \<Rightarrow> pyfloat" where
  "py_max_float a b = (if float_lt a b then b else a)"

definition py_min_float :: "pyfloat \<Rightarrow> pyfloat \<Rightarrow> pyfloat" where
  "py_min_float a b = (if float_lt b a then b else a)"

text \<open>
  The body of \<open>_calculate_quality_score\<close> on the two fields it reads,
  \<open>metrics.accuracy_score\<close> and \<open>metrics.benchmark_score\<close>, as floats that may be
  infinite or \<open>nan\<close>.
\<close>

definition calculate_quality_score_float :: "pyfloat \<Rightarrow> pyfloat \<Rightarrow> pyfloat" where
  "calculate_quality_score_float accuracy_score_in benchmark_score_in =
     (let accuracy = py_min_float (py_max_float accuracy_score_in (Fin 0.0)) (Fin 1.0);
          benchmark =
            py_min_float (py_max_float (float_div_pos benchmark_score_in 100.0) (Fin 0.0))
              (Fin 1.0)
      in float_add (float_mul accuracy (Fin 0.6)) (float_mul benchmark (Fin 0.4)))"

section \<open>Model comparison\<close>

text \<open>
  Python's built-in \<open>sorted(results, key=..., reverse=True)\<close>: a stable sort into
  descending key order (elements with equal keys keep their relative order, also under
  \<open>reverse=True\<close>). It is modelled as an insertion sort from the right: an element is
  placed in front of the first element whose key does not exceed its own.
\<close>

fun insort_reverse :: "('a \<Rightarrow> real) \<Rightarrow> 'a \<Rightarrow> 'a list \<Rightarrow> 'a list" where
  "insort_reverse key x [] = [x]"
| "insort_reverse key x (y # ys) =
     (if key y \<le> key x then x # y # ys else y # insort_reverse key x ys)"

definition sorted_reverse :: "('a \<Rightarrow> real) \<Rightarrow> 'a list \<Rightarrow> 'a list" where
  "sorted_reverse key xs = foldr (insort_reverse key) xs []"

text \<open>
  The \<open>for\<close> loop of \<open>compare_models\<close>: each identifier is scored with the default
  arguments (no metrics, category \<open>LLM\<close>) and the result appended.
\<close>

fun compare_loop ::
  "QScoreAnalyzerTool \<Rightarrow> string list \<Rightarrow> QScoreResult list \<Rightarrow> QScoreResult list" where
  "compare_loop self [] results = results"
| "compare_loop self (mid # mids) results =
     compare_loop self mids (results @ [calculate_q_score self mid None LLM])"

definition compare_models :: "QScoreAnalyzerTool \<Rightarrow> string list \<Rightarrow> QScoreResult list" where
  "compare_models self model_ids = sorted_reverse q_score (compare_loop self model_ids [])"

section \<open>Swap pricing\<close>

text \<open>
  Modelled from the spec: the contract module \<open>contracts/chatten_token.py\<close> is not
  among the sources; the tests assert \<open>TOKEN_DECIMALS == 8\<close>.
\<close>

definition TOKEN_DECIMALS :: nat where "TOKEN_DECIMALS = 8"

text \<open>
  Modelled from the spec: one whole token is \<open>10 ** TOKEN_DECIMALS\<close> = 100,000,000
  smallest units (the constant \<open>ONE_TOKEN\<close> of the missing contract module).
\<close>

definition ONE_TOKEN :: int where "ONE_TOKEN = 10 ^ TOKEN_DECIMALS"

datatype pricing_error = InvalidPrice

text \<open>
  Modelled from the spec: the fee of the missing contract, amount times 3 divided by
  1000 with integer floor division (\<open>div\<close> on \<open>int\<close> rounds towards minus infinity, as
  Python's \<open>//\<close> does).
\<close>

definition swap_fee :: "int \<Rightarrow> int" where
  "swap_fee amount = amount * 3 div 1000"

text \<open>
  Modelled from the spec: \<open>quoteBuy\<close> of the missing contract. A zero or negative price
  fails with an explicit error; otherwise the fee is taken from the base amount and the
  net amount is converted at the price, both by floor division.
\<close>

definition quoteBuy :: "int \<Rightarrow> int \<Rightarrow> pricing_error + int" where
  "quoteBuy baseAmountIn price =
     (if price \<le> 0 then Inl InvalidPrice
      else let fee = swap_fee baseAmountIn;
               net = baseAmountIn - fee
           in Inr (net * ONE_TOKEN div price))"

text \<open>
  Modelled from the spec: \<open>quoteSell\<close> of the missing contract, the structural inverse
  of \<open>quoteBuy\<close>: fee and net on the token leg, output in base-asset smallest units.
\<close>

definition quoteSell :: "int \<Rightarrow> int \<Rightarrow> pricing_error + int" where
  "quoteSell tokenAmountIn price =
     (if price \<le> 0 then Inl InvalidPrice
      else let fee = swap_fee tokenAmountIn;
               net = tokenAmountIn - fee
           in Inr (net * price div ONE_TOKEN))"

text \<open>
  The two tests of \<open>TestSwapFeeLogic\<close> in \<open>tests/test_contract.py\<close>, each as the
  truth value of its assertions. The constant \<open>ONE_TOKEN\<close> is imported there from the
  missing module and is a parameter here.
\<close>

definition test_fee_is_0_3_percent :: bool where
  "test_fee_is_0_3_percent =
     (let amount = 10000000 :: int;
          expected_fee = amount * 3 div 1000
      in expected_fee = 30000)"

definition test_buy_compute_formula :: "int \<Rightarrow> bool" where
  "test_buy_compute_formula one_token =
     (let gas_amount = 100000000 :: int;
          price = 50000000 :: int;
          fee = gas_amount * 3 div 1000;
          net = gas_amount - fee;
          compute = net * one_token div price
      in compute > one_token * 19 div 10 \<and> compute < one_token * 2)"

section \<open>The specification's formulations\<close>


text \<open>The same clamp on floats, and "the value lies in [0, 1]" for a float.\<close>

definition clamp_float :: "pyfloat \<Rightarrow> pyfloat \<Rightarrow> pyfloat \<Rightarrow> pyfloat" where
  "clamp_float x lo hi = (if float_lt x lo then lo else if float_lt hi x then hi else x)"


text \<open>
  The specification's recommendation contract: one advisory per component fraction
  below 0.5, in the order latency, throughput, quality, reliability, and one summary
  line keyed by the range of the composite.
\<close>

definition advisories :: "real \<Rightarrow> real \<Rightarrow> real \<Rightarrow> real \<Rightarrow> string list" where
  "advisories l t qu r =
     map snd (filter (\<lambda>(frac, msg). frac < 0.5)
       [(l, ''Consider optimizing inference latency''),
        (t, ''Throughput could be improved with batching''),
        (qu, ''Model accuracy needs improvement''),
        (r, ''Improve uptime and reduce error rates'')])"

definition summary_line :: "real \<Rightarrow> string" where
  "summary_line composite =
     (if composite \<ge> 80 then ''Excellent performance - eligible for premium rates''
      else if 50 \<le> composite \<and> composite < 80
      then ''Good performance - eligible for token minting''
      else ''Below threshold - improvements needed before minting'')"

section \<open>Concrete snapshots and tools\<close>

text \<open>A snapshot that differs from the default only in its average latency.\<close>

definition with_latency :: "real \<Rightarrow> PerformanceMetrics" where
  "with_latency L = PerformanceMetrics_default\<lparr>avg_latency_ms := L\<rparr>"

text \<open>A snapshot whose composite is 50 and one whose composite is 49.999.\<close>

definition snapshot_50 :: PerformanceMetrics where
  "snapshot_50 =
     PerformanceMetrics_default\<lparr>avg_latency_ms := 10, tokens_per_second := 1000,
       error_rate := 0.5\<rparr>"

definition snapshot_49_999 :: PerformanceMetrics where
  "snapshot_49_999 =
     PerformanceMetrics_default\<lparr>avg_latency_ms := 10, accuracy_score := 0.5,
       benchmark_score := 49.99\<rparr>"

text \<open>A freshly constructed tool, and one whose cache knows the model \<open>b\<close>.\<close>

definition empty_tool :: QScoreAnalyzerTool where
  "empty_tool = \<lparr>metrics_cache = Map.empty\<rparr>"

definition demo_tool :: QScoreAnalyzerTool where
  "demo_tool = \<lparr>metrics_cache = [''b'' \<mapsto> with_latency 10]\<rparr>"

section \<open>Auxiliary facts\<close>

lemmas score_defs =
  calculate_q_score_def calculate_latency_score_def calculate_throughput_score_def
  calculate_quality_score_def calculate_reliability_score_def py_min_def py_max_def
  LATENCY_WEIGHT_def THROUGHPUT_WEIGHT_def QUALITY_WEIGHT_def RELIABILITY_WEIGHT_def
  MIN_SCORE_FOR_MINT_def PerformanceMetrics_default_def Let_def

lemmas quality_float_defs =
  calculate_quality_score_float_def py_min_float_def py_max_float_def clamp_float_def Let_def

text \<open>On finite inputs the two models of the quality score agree.\<close>

lemma quality_float_agrees:
  "calculate_quality_score_float (Fin (accuracy_score m)) (Fin (benchmark_score m)) =
     Fin (calculate_quality_score m)"
  by (simp add: quality_float_defs calculate_quality_score_def py_min_def py_max_def)

lemma mset_insort_reverse: "mset (insort_reverse key x ys) = add_mset x (mset ys)"
  by (induction ys) auto

lemma mset_sorted_reverse: "mset (sorted_reverse key xs) = mset xs"
  by (induction xs) (auto simp: sorted_reverse_def mset_insort_reverse)

lemma set_insort_reverse: "set (insort_reverse key x ys) = insert x (set ys)"
  by (induction ys) auto

lemma descending_insort_reverse:
  "sorted_wrt (\<lambda>a b. key b \<le> key a) ys \<Longrightarrow>
     sorted_wrt (\<lambda>a b. key b \<le> key a) (insort_reverse key x ys)"
proof (induction ys)
  case Nil
  then show ?case by simp
next
  case (Cons y ys)
  show ?case
  proof (cases "key y \<le> key x")
    case True
    with Cons.prems show ?thesis by force
  next
    case False
    with Cons show ?thesis by (auto simp: set_insort_reverse)
  qed
qed

lemma descending_sorted_reverse:
  "sorted_wrt (\<lambda>a b. key b \<le> key a) (sorted_reverse key xs)"
  by (induction xs) (auto simp: sorted_reverse_def descending_insort_reverse)

text \<open>Insertion never moves an element past one of equal key.\<close>

lemma filter_insort_reverse:
  "filter (\<lambda>a. key a = k) (insort_reverse key x ys) =
     (if key x = k then x # filter (\<lambda>a. key a = k) ys else filter (\<lambda>a. key a = k) ys)"
  by (induction ys) auto

lemma filter_sorted_reverse:
  "filter (\<lambda>a. key a = k) (sorted_reverse key xs) = filter (\<lambda>a. key a = k) xs"
  by (induction xs) (auto simp: sorted_reverse_def filter_insort_reverse)

lemma compare_loop_map:
  "compare_loop self mids results =
     results @ map (\<lambda>mid. calculate_q_score self mid None LLM) mids"
  by (induction mids arbitrary: results) auto

lemma model_id_calculate_q_score: "model_id (calculate_q_score self mid marg cat) = mid"
  by (simp add: calculate_q_score_def Let_def)

section \<open>The composite score\<close>

text \<open>
  C1. For every performance snapshot, the composite Q-score of the result of
  \<open>calculate_q_score\<close> is (latency fraction * 0.25 + throughput fraction * 0.25 +
  quality fraction * 0.25 + reliability fraction * 0.25) * 100, each component field of
  the result is its fraction times 25, and the composite equals the sum of the four
  component fields (exactly, in real arithmetic). The snapshot is the one stored in the
  result: the argument when one is given.
\<close>

theorem q_score_composite:
  fixes self :: QScoreAnalyzerTool and mid :: string
    and marg :: "PerformanceMetrics option" and cat :: ModelCategory
  defines "r \<equiv> calculate_q_score self mid marg cat"
  shows "q_score r =
           (calculate_latency_score (metrics r) * 0.25 +
            calculate_throughput_score (metrics r) * 0.25 +
            calculate_quality_score (metrics r) * 0.25 +
            calculate_reliability_score (metrics r) * 0.25) * 100 \<and>
         latency_score r = calculate_latency_score (metrics r) * 25 \<and>
         throughput_score r = calculate_throughput_score (metrics r) * 25 \<and>
         quality_score r = calculate_quality_score (metrics r) * 25 \<and>
         reliability_score r = calculate_reliability_score (metrics r) * 25 \<and>
         q_score r =
           latency_score r + throughput_score r + quality_score r + reliability_score r \<and>
         metrics (calculate_q_score self mid (Some m) cat) = m"
  unfolding r_def calculate_q_score_def Let_def
    LATENCY_WEIGHT_def THROUGHPUT_WEIGHT_def QUALITY_WEIGHT_def RELIABILITY_WEIGHT_def
  by (simp add: algebra_simps)

section \<open>Swap quotes\<close>

text \<open>
  C2. The buy quote is computed by integer floor division: the fee is the base amount
  times 3 divided by 1000, the net is the base amount minus the fee, and the token
  output is the net times 10^8 divided by the price. For a base amount of 100,000,000
  and a price of 50,000,000 the fee is 300,000, the net 99,700,000 and the output
  199,400,000; for an amount of 10,000,000 the fee is 30,000. Both tests of
  \<open>TestSwapFeeLogic\<close> pass with \<open>ONE_TOKEN\<close> = 10^8.
\<close>

theorem quoteBuy_formula:
  "swap_fee a = a * 3 div 1000 \<and>
   (0 < p \<longrightarrow> quoteBuy a p = Inr ((a - a * 3 div 1000) * 10 ^ 8 div p)) \<and>
   swap_fee 100000000 = 300000 \<and>
   100000000 - swap_fee 100000000 = 99700000 \<and>
   quoteBuy 100000000 50000000 = Inr 199400000 \<and>
   swap_fee 10000000 = 30000 \<and>
   test_fee_is_0_3_percent \<and>
   test_buy_compute_formula ONE_TOKEN"
  by (simp add: swap_fee_def quoteBuy_def ONE_TOKEN_def TOKEN_DECIMALS_def
      test_buy_compute_formula_def test_fee_is_0_3_percent_def)

theorem quoteBuy_formula_witness:
  "(0::int) < 7 \<and> quoteBuy 1000 7 = Inr 14242857142"
  using quoteBuy_formula [of 1000 7] by simp

section \<open>The mint gate\<close>

text \<open>
  C3. For every call of \<open>calculate_q_score\<close> the flag \<open>mint_eligible\<close> of the result
  is true exactly when the composite of the result is at least 50. A snapshot with
  composite 50.0 is eligible, one with composite 49.999 is not.
\<close>

theorem mint_eligible_iff:
  "mint_eligible (calculate_q_score self mid marg cat) =
     (q_score (calculate_q_score self mid marg cat) \<ge> 50) \<and>
   q_score (calculate_q_score self mid (Some snapshot_50) cat) = 50.0 \<and>
   mint_eligible (calculate_q_score self mid (Some snapshot_50) cat) \<and>
   q_score (calculate_q_score self mid (Some snapshot_49_999) cat) = 49.999 \<and>
   \<not> mint_eligible (calculate_q_score self mid (Some snapshot_49_999) cat)"
  by (simp add: score_defs snapshot_50_def snapshot_49_999_def)

section \<open>Latency scoring\<close>

text \<open>
  C4 as stated: for every pair of latencies \<open>L1 \<le> L2\<close> the score of \<open>L1\<close> is at
  least the score of \<open>L2\<close>. It fails across zero: the guard \<open>latency \<le> 0\<close> scores
  a latency of 0 as 0.0, while the larger latency 10 scores 1.0.
\<close>

theorem latency_score_not_monotone:
  "avg_latency_ms (with_latency 0) \<le> avg_latency_ms (with_latency 10) \<and>
   calculate_latency_score (with_latency 0) = 0.0 \<and>
   calculate_latency_score (with_latency 10) = 1.0 \<and>
   \<not> calculate_latency_score (with_latency 10) \<le> calculate_latency_score (with_latency 0)"
  by (simp add: calculate_latency_score_def with_latency_def)

text \<open>
  C4 amended: on strictly positive latencies the latency component score is
  monotonically non-increasing: for every pair \<open>0 < L1 \<le> L2\<close> the score of \<open>L1\<close>
  is greater than or equal to the score of \<open>L2\<close>.
\<close>

theorem latency_score_antimono_positive:
  "0 < avg_latency_ms m1 \<Longrightarrow> avg_latency_ms m1 \<le> avg_latency_ms m2 \<Longrightarrow>
     calculate_latency_score m2 \<le> calculate_latency_score m1"
  unfolding calculate_latency_score_def Let_def by auto

theorem latency_score_antimono_positive_witness:
  "0 < avg_latency_ms (with_latency 10) \<and>
   avg_latency_ms (with_latency 10) \<le> avg_latency_ms (with_latency 60) \<and>
   calculate_latency_score (with_latency 60) \<le> calculate_latency_score (with_latency 10)"
proof -
  have h1: "0 < avg_latency_ms (with_latency 10)"
    by (simp add: with_latency_def)
  have h2: "avg_latency_ms (with_latency 10) \<le> avg_latency_ms (with_latency 60)"
    by (simp add: with_latency_def)
  from latency_score_antimono_positive [OF h1 h2] h1 h2 show ?thesis by simp
qed

text \<open>
  C5. The latency component score is the piecewise function of the average latency
  tabulated in the specification: a latency of at most 0 scores 0.0, a latency strictly
  between 0 and 50 scores 1.0, from 50 up to (not including) 100 scores 0.8, from 100 up
  to 200 scores 0.6, from 200 up to 500 scores 0.4, from 500 up to 1000 scores 0.2, and a
  latency of 1000 or more scores 0.0. The boundary 50 scores 0.8 and the boundary 100
  scores 0.6.
\<close>

theorem latency_score_piecewise:
  fixes m :: PerformanceMetrics
  defines "L \<equiv> avg_latency_ms m" and "s \<equiv> calculate_latency_score m"
  shows "(L \<le> 0 \<longrightarrow> s = 0.0) \<and>
         (0 < L \<and> L < 50 \<longrightarrow> s = 1.0) \<and>
         (50 \<le> L \<and> L < 100 \<longrightarrow> s = 0.8) \<and>
         (100 \<le> L \<and> L < 200 \<longrightarrow> s = 0.6) \<and>
         (200 \<le> L \<and> L < 500 \<longrightarrow> s = 0.4) \<and>
         (500 \<le> L \<and> L < 1000 \<longrightarrow> s = 0.2) \<and>
         (1000 \<le> L \<longrightarrow> s = 0.0) \<and>
         calculate_latency_score (with_latency 50) = 0.8 \<and>
         calculate_latency_score (with_latency 100) = 0.6"
  unfolding L_def s_def calculate_latency_score_def Let_def with_latency_def by auto

theorem latency_score_piecewise_witness:
  "calculate_latency_score (with_latency (-5)) = 0.0 \<and>
   calculate_latency_score (with_latency 49.999) = 1.0 \<and>
   calculate_latency_score (with_latency 75) = 0.8 \<and>
   calculate_latency_score (with_latency 99.999) = 0.8 \<and>
   calculate_latency_score (with_latency 150) = 0.6 \<and>
   calculate_latency_score (with_latency 200) = 0.4 \<and>
   calculate_latency_score (with_latency 500) = 0.2 \<and>
   calculate_latency_score (with_latency 1000) = 0.0"
  using latency_score_piecewise [of "with_latency (-5)"]
        latency_score_piecewise [of "with_latency 49.999"]
        latency_score_piecewise [of "with_latency 75"]
        latency_score_piecewise [of "with_latency 99.999"]
        latency_score_piecewise [of "with_latency 150"]
        latency_score_piecewise [of "with_latency 200"]
        latency_score_piecewise [of "with_latency 500"]
        latency_score_piecewise [of "with_latency 1000"]
  by (simp add: with_latency_def)

section \<open>Quality scoring\<close>




section \<open>Ranking\<close>

text \<open>
  C7. For every list of model identifiers \<open>compare_models\<close> returns exactly one
  result per identifier (the results are a rearrangement of the per-identifier scores,
  and their identifiers a rearrangement of the input), sorted by composite Q-score in
  descending order, and the results of any one composite value appear in the order in
  which their identifiers were given.
\<close>

theorem compare_models_sorted_stable:
  fixes self :: QScoreAnalyzerTool and model_ids :: "string list"
  defines "scored \<equiv> map (\<lambda>mid. calculate_q_score self mid None LLM) model_ids"
  shows "length (compare_models self model_ids) = length model_ids \<and>
         mset (compare_models self model_ids) = mset scored \<and>
         mset (map model_id (compare_models self model_ids)) = mset model_ids \<and>
         sorted_wrt (\<lambda>a b. q_score a \<ge> q_score b) (compare_models self model_ids) \<and>
         (\<forall>k. filter (\<lambda>r. q_score r = k) (compare_models self model_ids) =
              filter (\<lambda>r. q_score r = k) scored)"
proof -
  have cm: "compare_models self model_ids = sorted_reverse q_score scored"
    by (simp add: compare_models_def compare_loop_map scored_def)
  have m: "mset (compare_models self model_ids) = mset scored"
    by (simp add: cm mset_sorted_reverse)
  have len: "length (compare_models self model_ids) = length model_ids"
    using m [THEN arg_cong [where f = size]] by (simp add: scored_def)
  have scored_ids: "map model_id scored = model_ids"
    by (simp add: scored_def model_id_calculate_q_score comp_def)
  have "mset (map model_id (compare_models self model_ids)) = mset (map model_id scored)"
    by (simp add: m)
  then have ids: "mset (map model_id (compare_models self model_ids)) = mset model_ids"
    by (simp only: scored_ids)
  have srt: "sorted_wrt (\<lambda>a b. q_score a \<ge> q_score b) (compare_models self model_ids)"
    by (simp add: cm descending_sorted_reverse)
  have stab: "\<forall>k. filter (\<lambda>r. q_score r = k) (compare_models self model_ids) =
              filter (\<lambda>r. q_score r = k) scored"
    by (simp add: cm filter_sorted_reverse)
  from len m ids srt stab show ?thesis by blast
qed

text \<open>
  With \<open>b\<close> cached at a higher score and \<open>a\<close>, \<open>c\<close> both uncached (equal scores),
  \<open>b\<close> comes first and \<open>a\<close> stays before \<open>c\<close>.
\<close>

theorem compare_models_sorted_stable_witness:
  "length (compare_models demo_tool [''a'', ''b'', ''c'']) = 3 \<and>
   map model_id (compare_models demo_tool [''a'', ''b'', ''c'']) = [''b'', ''a'', ''c''] \<and>
   map q_score (compare_models demo_tool [''a'', ''b'', ''c'']) = [37.5, 12.5, 12.5]"
  using compare_models_sorted_stable [of demo_tool "[''a'', ''b'', ''c'']"]
  by (simp add: compare_models_def sorted_reverse_def demo_tool_def with_latency_def
      fetch_metrics_def score_defs)

section \<open>Recommendations\<close>

text \<open>
  C8. For every input of four component fractions and a composite, the recommendation
  list is the advisories of the components whose fraction is below 0.5, in the order
  latency, throughput, quality, reliability, followed by exactly one summary line: the
  premium message when the composite is at least 80, the minting message when it is at
  least 50 and below 80, the below-threshold message otherwise. Its length is the number
  of fractions below 0.5 plus one. Being a function of its five inputs, the list is the
  same for identical inputs.
\<close>

theorem recommendations_structure:
  "generate_recommendations q l t qu r = advisories l t qu r @ [summary_line q] \<and>
   length (generate_recommendations q l t qu r) =
     length (filter (\<lambda>frac. frac < 0.5) [l, t, qu, r]) + 1"
  by (simp add: generate_recommendations_def advisories_def summary_line_def
      EXCELLENT_THRESHOLD_def MIN_SCORE_FOR_MINT_def Let_def)

theorem recommendations_structure_witness:
  "generate_recommendations 49 0.4 0.6 0.2 0.5 =
     [''Consider optimizing inference latency'', ''Model accuracy needs improvement'',
      ''Below threshold - improvements needed before minting''] \<and>
   generate_recommendations 80 1 1 1 0.2 =
     [''Improve uptime and reduce error rates'',
      ''Excellent performance - eligible for premium rates''] \<and>
   generate_recommendations 79.5 1 1 1 1 =
     [''Good performance - eligible for token minting'']"
  using recommendations_structure [of 49 "0.4" "0.6" "0.2" "0.5"]
        recommendations_structure [of 80 1 1 1 "0.2"]
        recommendations_structure [of "79.5" 1 1 1 1]
  by (simp add: advisories_def summary_line_def)

section \<open>Invalid prices\<close>

text \<open>
  C9. For every quote request with a zero or negative price, \<open>quoteBuy\<close> and
  \<open>quoteSell\<close> return the explicit error and no numeric quote.
\<close>

theorem nonpositive_price_fails:
  "price \<le> 0 \<Longrightarrow>
     quoteBuy a price = Inl InvalidPrice \<and> quoteSell t price = Inl InvalidPrice \<and>
     (\<forall>v. quoteBuy a price \<noteq> Inr v) \<and> (\<forall>v. quoteSell t price \<noteq> Inr v)"
  by (simp add: quoteBuy_def quoteSell_def)

theorem nonpositive_price_fails_witness:
  "quoteBuy 100000000 0 = Inl InvalidPrice \<and>
   quoteSell 100000000 0 = Inl InvalidPrice \<and>
   quoteBuy 100000000 (-50000000) = Inl InvalidPrice \<and>
   quoteSell 100000000 (-50000000) = Inl InvalidPrice"
  using nonpositive_price_fails [of 0 100000000 100000000]
        nonpositive_price_fails [of "-50000000" 100000000 100000000]
  by simp

section \<open>The uncached default\<close>

text \<open>
  C10. When \<open>calculate_q_score\<close> is called without metrics for an identifier that is
  not in the cache, the snapshot is the all-zero default, the composite is exactly 12.5
  and the result is not mint-eligible: the latency, throughput and quality fractions are
  0 and the reliability fraction is 0.5. That half comes from the error rate alone: the
  default snapshot with an error rate of 0.10 has reliability 0.
\<close>

theorem uncached_default_score:
  fixes self :: QScoreAnalyzerTool and mid :: string and cat :: ModelCategory
  assumes "metrics_cache self mid = None"
  defines "r \<equiv> calculate_q_score self mid None cat"
  shows "metrics r = PerformanceMetrics_default \<and>
         q_score r = 12.5 \<and> \<not> mint_eligible r \<and>
         calculate_latency_score (metrics r) = 0 \<and>
         calculate_throughput_score (metrics r) = 0 \<and>
         calculate_quality_score (metrics r) = 0 \<and>
         calculate_reliability_score (metrics r) = 0.5 \<and>
         calculate_reliability_score (PerformanceMetrics_default\<lparr>error_rate := 0.10\<rparr>) = 0"
  using assms(1) unfolding r_def
  by (simp add: score_defs fetch_metrics_def)

theorem uncached_default_score_witness:
  "metrics_cache empty_tool ''model-a'' = None \<and>
   q_score (calculate_q_score empty_tool ''model-a'' None LLM) = 12.5 \<and>
   \<not> mint_eligible (calculate_q_score empty_tool ''model-a'' None LLM)"
proof -
  have h: "metrics_cache empty_tool ''model-a'' = None"
    by (simp add: empty_tool_def)
  from uncached_default_score [OF h, of LLM] h show ?thesis by simp
qed

end
